theory Spec2Isabelle
  imports Complex_Main "HOL-Library.Word" "HOL-Library.Sublist"
begin

section \<open>Go data\<close>

text \<open>
  The repository is two Go programs, \<^verbatim>\<open>server.go\<close> and \<^verbatim>\<open>client.go\<close>, that declare
  the same two message structs. A Go \<^verbatim>\<open>string\<close> is a sequence of bytes, modelled as
  \<^typ>\<open>string\<close> (a list of 8-bit characters). A Go \<^verbatim>\<open>int\<close> is 64 bits wide on the
  platform the README deploys to; its arithmetic wraps around. A \<^verbatim>\<open>rune\<close> is a code
  point; no arithmetic of the program depends on its width, so it is an \<^typ>\<open>int\<close>.
\<close>

type_synonym go_int = "64 word"
type_synonym rune = int

text \<open>
  A \<^verbatim>\<open>float64\<close> is a finite number, an infinity or a NaN. The program never computes
  with floats: it only converts them to \<^verbatim>\<open>int\<close>, which depends on the exact value alone.
  A finite float is therefore represented by its exact (rational) value.
\<close>

datatype float64 = Finite rat | PosInf | NegInf | NaN

text \<open>
  The dynamic values an \<^verbatim>\<open>interface{}\<close> of the program holds: what \<^verbatim>\<open>encoding/json\<close>
  decodes into (nil, bool, float64, string, slice, map) and the \<^verbatim>\<open>int\<close> that \<^verbatim>\<open>add\<close>
  stores in a result. A map is an association list read by \<^const>\<open>map_of\<close>; \<open>None\<close> is the
  nil map, which reads like an empty one and is encoded as JSON \<^verbatim>\<open>null\<close>.
\<close>

datatype gvalue =
    VNil
  | VBool bool
  | VFloat float64
  | VInt go_int
  | VString string
  | VSlice "gvalue list"
  | VMap "(string \<times> gvalue) list option"

record Request =
  RequestID :: string
  Method :: string
  Params :: "(string \<times> gvalue) list option"
  Timestamp :: string

text \<open>
  Both structs have a field \<^verbatim>\<open>RequestID\<close>; the response's is named \<open>RespID\<close> here,
  since two records of one theory cannot share a field name.
\<close>

record Response =
  RespID :: string
  Result :: gvalue
  Status :: string
  Error :: string

text \<open>\<^verbatim>\<open>v, ok := m[k]\<close>: reading a nil map finds nothing.\<close>

definition mapIndex :: "(string \<times> gvalue) list option \<Rightarrow> string \<Rightarrow> gvalue option" where
  "mapIndex m k = (case m of None \<Rightarrow> None | Some kvs \<Rightarrow> map_of kvs k)"

section \<open>The standard library the program calls\<close>

subsection \<open>UTF-8 (package \<^verbatim>\<open>unicode/utf8\<close>, and the conversions between string and rune slice)\<close>

definition RuneError :: rune where
  "RuneError = 0xFFFD"

text \<open>
  \<^verbatim>\<open>utf8.DecodeRuneInString\<close>: the first rune of the string and its width in bytes. The
  first byte fixes the size and the range accepted for the second byte; an invalid or
  short encoding gives \<open>(RuneError, 1)\<close>. Masks and shifts are written as \<open>mod\<close> and
  multiplication.
\<close>

fun DecodeRuneInString :: "string \<Rightarrow> rune \<times> nat" where
  "DecodeRuneInString [] = (RuneError, 0)"
| "DecodeRuneInString (c0 # s) =
    (let s0 = (of_char c0 :: int) in
     if s0 < 0x80 then (s0, 1)
     else if s0 < 0xC2 \<or> 0xF4 < s0 then (RuneError, 1)
     else
       let sz = (if s0 < 0xE0 then 2 else if s0 < 0xF0 then 3 else (4::nat));
           lo = (if s0 = 0xE0 then 0xA0 else if s0 = 0xF0 then 0x90 else (0x80::int));
           hi = (if s0 = 0xED then 0x9F else if s0 = 0xF4 then 0x8F else (0xBF::int))
       in
         if length (c0 # s) < sz then (RuneError, 1)
         else
           let s1 = (of_char (s ! 0) :: int) in
           if s1 < lo \<or> hi < s1 then (RuneError, 1)
           else if sz \<le> 2 then ((s0 mod 32) * 64 + s1 mod 64, 2)
           else
             let s2 = (of_char (s ! 1) :: int) in
             if s2 < 0x80 \<or> 0xBF < s2 then (RuneError, 1)
             else if sz \<le> 3 then ((s0 mod 16) * 4096 + (s1 mod 64) * 64 + s2 mod 64, 3)
             else
               let s3 = (of_char (s ! 2) :: int) in
               if s3 < 0x80 \<or> 0xBF < s3 then (RuneError, 1)
               else ((s0 mod 8) * 262144 + (s1 mod 64) * 4096 + (s2 mod 64) * 64 + s3 mod 64, 4))"

text \<open>
  \<^verbatim>\<open>utf8.AppendRune\<close>: the UTF-8 encoding of a rune. A negative rune, one beyond
  \<open>0x10FFFF\<close> and a surrogate half are encoded as \<open>RuneError\<close>.
\<close>

definition EncodeRune :: "rune \<Rightarrow> string" where
  "EncodeRune r =
    (if 0 \<le> r \<and> r < 0x80 then [char_of r]
     else if 0 \<le> r \<and> r \<le> 0x7FF then [char_of (0xC0 + r div 64), char_of (0x80 + r mod 64)]
     else
       let q = (if r < 0 \<or> 0x10FFFF < r \<or> (0xD800 \<le> r \<and> r \<le> 0xDFFF) then RuneError else r) in
       if q \<le> 0xFFFF then
         [char_of (0xE0 + q div 4096), char_of (0x80 + (q div 64) mod 64), char_of (0x80 + q mod 64)]
       else
         [char_of (0xF0 + q div 262144), char_of (0x80 + (q div 4096) mod 64),
          char_of (0x80 + (q div 64) mod 64), char_of (0x80 + q mod 64)])"

lemma DecodeRuneInString_width: "s \<noteq> [] \<Longrightarrow> 1 \<le> snd (DecodeRuneInString s)"
  by (cases s) (simp_all add: Let_def)

text \<open>
  The conversion \<^verbatim>\<open>[]rune(s)\<close>: the runes of the string, one \<open>RuneError\<close> for every
  byte that starts no valid encoding.
\<close>

function stringToRunes :: "string \<Rightarrow> rune list" where
  "stringToRunes [] = []"
| "stringToRunes (c # s) =
    (case DecodeRuneInString (c # s) of (r, n) \<Rightarrow> r # stringToRunes (drop n (c # s)))"
  by pat_completeness auto
termination
proof (relation "measure length")
  show "wf (measure length)" by simp
next
  fix c :: char and s :: string and r :: rune and n :: nat
  assume "(r, n) = DecodeRuneInString (c # s)"
  then have "1 \<le> n"
    using DecodeRuneInString_width [of "c # s"] by (metis list.distinct(1) snd_conv)
  then show "(drop n (c # s), c # s) \<in> measure length" by simp
qed

text \<open>The conversion \<^verbatim>\<open>string(r)\<close> of a rune slice: the encodings, concatenated.\<close>

definition runesToString :: "rune list \<Rightarrow> string" where
  "runesToString rs = concat (map EncodeRune rs)"

text \<open>
  \<^verbatim>\<open>utf8.ValidString\<close>: the string consists entirely of valid encodings, that is, no
  decoding step answers \<open>(RuneError, 1)\<close>.
\<close>

function ValidString :: "string \<Rightarrow> bool" where
  "ValidString [] = True"
| "ValidString (c # s) =
    (case DecodeRuneInString (c # s) of (r, n) \<Rightarrow>
       \<not> (r = RuneError \<and> n = 1) \<and> ValidString (drop n (c # s)))"
  by pat_completeness auto
termination
proof (relation "measure length")
  show "wf (measure length)" by simp
next
  fix c :: char and s :: string and r :: rune and n :: nat
  assume "(r, n) = DecodeRuneInString (c # s)"
  then have "1 \<le> n"
    using DecodeRuneInString_width [of "c # s"] by (metis list.distinct(1) snd_conv)
  then show "(drop n (c # s), c # s) \<in> measure length" by simp
qed

subsection \<open>Package \<^verbatim>\<open>strings\<close>\<close>

text \<open>
  \<^verbatim>\<open>unicode.ToLower\<close> answers an ASCII rune itself and looks every other rune up in the
  Unicode case tables. The tables are not part of the repository: they are the
  parameter \<open>tbl\<close>.
\<close>

definition unicodeToLower :: "(rune \<Rightarrow> rune) \<Rightarrow> rune \<Rightarrow> rune" where
  "unicodeToLower tbl r =
    (if r \<le> 0x7F then (if 0x41 \<le> r \<and> r \<le> 0x5A then r + 0x20 else r) else tbl r)"

text \<open>
  \<^verbatim>\<open>strings.Map\<close>: every rune of the string replaced by its image, a negative image
  dropped.
\<close>

definition stringsMap :: "(rune \<Rightarrow> rune) \<Rightarrow> string \<Rightarrow> string" where
  "stringsMap f s =
    concat (map (\<lambda>c. let r = f c in if 0 \<le> r then EncodeRune r else []) (stringToRunes s))"

definition asciiLower :: "char \<Rightarrow> char" where
  "asciiLower c =
    (if 0x41 \<le> (of_char c :: nat) \<and> (of_char c :: nat) \<le> 0x5A
     then char_of ((of_char c :: nat) + 0x20) else c)"

text \<open>
  \<^verbatim>\<open>strings.ToLower\<close>: a string of ASCII bytes is lowered byte by byte; any other string
  goes through \<^verbatim>\<open>Map(unicode.ToLower, s)\<close>.
\<close>

definition ToLower :: "(rune \<Rightarrow> rune) \<Rightarrow> string \<Rightarrow> string" where
  "ToLower tbl s =
    (if list_all (\<lambda>c. (of_char c :: nat) < 0x80) s then map asciiLower s
     else stringsMap (unicodeToLower tbl) s)"

text \<open>\<^verbatim>\<open>unicode.IsSpace\<close>: the code points of Unicode's White_Space property.\<close>

definition isSpace :: "rune \<Rightarrow> bool" where
  "isSpace r =
    ((0x09 \<le> r \<and> r \<le> 0x0D) \<or> r = 0x20 \<or> r = 0x85 \<or> r = 0xA0 \<or> r = 0x1680
     \<or> (0x2000 \<le> r \<and> r \<le> 0x200A) \<or> r = 0x2028 \<or> r = 0x2029 \<or> r = 0x202F
     \<or> r = 0x205F \<or> r = 0x3000)"

text \<open>\<^verbatim>\<open>strings.TrimLeftFunc(s, unicode.IsSpace)\<close>: the leading white space runes dropped.\<close>

function TrimLeftSpace :: "string \<Rightarrow> string" where
  "TrimLeftSpace [] = []"
| "TrimLeftSpace (c # s) =
    (case DecodeRuneInString (c # s) of (r, n) \<Rightarrow>
       if isSpace r then TrimLeftSpace (drop n (c # s)) else c # s)"
  by pat_completeness auto
termination
proof (relation "measure length")
  show "wf (measure length)" by simp
next
  fix c :: char and s :: string and r :: rune and n :: nat
  assume "(r, n) = DecodeRuneInString (c # s)"
  then have "1 \<le> n"
    using DecodeRuneInString_width [of "c # s"] by (metis list.distinct(1) snd_conv)
  then show "(drop n (c # s), c # s) \<in> measure length" by simp
qed

text \<open>
  \<^verbatim>\<open>utf8.DecodeLastRuneInString\<close>: the last rune of the string and its width. From the
  byte before the last it walks back, at most four bytes from the end, to a byte that can start a rune
  (any byte outside \<open>0x80..0xBF\<close>), decodes from there, and answers \<open>(RuneError, 1)\<close>
  unless that rune ends where the string ends.
\<close>

function scanStart :: "string \<Rightarrow> int \<Rightarrow> int \<Rightarrow> int" where
  "scanStart s start lo =
    (if lo \<le> start then
       (if (of_char (s ! nat start) :: int) div 64 \<noteq> 2 then start
        else scanStart s (start - 1) lo)
     else start)"
  by pat_completeness auto
termination
  by (relation "measure (\<lambda>(s, start, lo). nat (start - lo + 1))") auto

declare scanStart.simps [simp del]

definition DecodeLastRuneInString :: "string \<Rightarrow> rune \<times> nat" where
  "DecodeLastRuneInString s =
    (let e = int (length s) in
     if e = 0 then (RuneError, 0)
     else if (of_char (last s) :: int) < 0x80 then (of_char (last s), 1)
     else
       let lo = max 0 (e - 4);
           start = max 0 (scanStart s (e - 2) lo);
           (r, n) = DecodeRuneInString (drop (nat start) s)
       in if start + int n \<noteq> e then (RuneError, 1) else (r, n))"

lemma scanStart_le: "scanStart s start lo \<le> start"
proof (induction s start lo rule: scanStart.induct)
  case (1 s start lo)
  then show ?case by (subst scanStart.simps) auto
qed

lemma DecodeLastRuneInString_width: "s \<noteq> [] \<Longrightarrow> 1 \<le> snd (DecodeLastRuneInString s)"
proof -
  assume ne: "s \<noteq> []"
  define e where "e = int (length s)"
  define start where "start = max 0 (scanStart s (e - 2) (max 0 (e - 4)))"
  have e: "1 \<le> e" using ne by (cases s) (simp_all add: e_def)
  have "scanStart s (e - 2) (max 0 (e - 4)) \<le> e - 2" by (rule scanStart_le)
  with e have start: "start \<le> e - 1" by (simp add: start_def)
  obtain r n where d: "DecodeRuneInString (drop (nat start) s) = (r, n)"
    by (cases "DecodeRuneInString (drop (nat start) s)")
  have "start + int n = e \<Longrightarrow> 1 \<le> n" using start by simp
  then show ?thesis
    using e d by (simp add: DecodeLastRuneInString_def Let_def e_def [symmetric] start_def [symmetric])
qed

text \<open>\<^verbatim>\<open>strings.TrimRightFunc(s, unicode.IsSpace)\<close>: the trailing white space runes dropped.\<close>

function TrimRightSpace :: "string \<Rightarrow> string" where
  "TrimRightSpace s =
    (if s = [] then []
     else case DecodeLastRuneInString s of (r, n) \<Rightarrow>
       if isSpace r then TrimRightSpace (take (length s - n) s) else s)"
  by pat_completeness auto
termination
proof (relation "measure length")
  show "wf (measure length)" by simp
next
  fix s :: string and r :: rune and n :: nat
  assume "s \<noteq> []" and "(r, n) = DecodeLastRuneInString s"
  then have "1 \<le> n"
    using DecodeLastRuneInString_width [of s] by (metis snd_conv)
  with \<open>s \<noteq> []\<close> show "(take (length s - n) s, s) \<in> measure length" by (cases s) auto
qed

declare TrimRightSpace.simps [simp del]

text \<open>
  \<^verbatim>\<open>strings.TrimSpace\<close>: all leading and trailing white space removed, as defined by
  Unicode (the library's fast path for ASCII computes the same string).
\<close>

definition TrimSpace :: "string \<Rightarrow> string" where
  "TrimSpace s = TrimRightSpace (TrimLeftSpace s)"

subsection \<open>Packages \<^verbatim>\<open>strconv\<close> and \<^verbatim>\<open>fmt\<close>\<close>

text \<open>The integers an \<^verbatim>\<open>int\<close> holds.\<close>

definition fitsInt :: "int \<Rightarrow> bool" where
  "fitsInt v = (- (2 ^ 63) \<le> v \<and> v < 2 ^ 63)"

definition isDigit :: "char \<Rightarrow> bool" where
  "isDigit c = (0x30 \<le> (of_char c :: nat) \<and> (of_char c :: nat) \<le> 0x39)"

definition digitsValue :: "string \<Rightarrow> nat" where
  "digitsValue ds = foldl (\<lambda>n c. n * 10 + ((of_char c :: nat) - 0x30)) 0 ds"

text \<open>
  \<^verbatim>\<open>strconv.Atoi\<close>: an optional sign and then one or more decimal digits, nothing
  else; a value outside the range of \<^verbatim>\<open>int\<close> is an error. \<open>None\<close> is the error.
\<close>

definition Atoi :: "string \<Rightarrow> go_int option" where
  "Atoi s =
    (case s of
       [] \<Rightarrow> None
     | c # cs \<Rightarrow>
        let ds = (if c = CHR ''-'' \<or> c = CHR ''+'' then cs else s) in
        if ds = [] \<or> \<not> list_all isDigit ds then None
        else
          let v = (if c = CHR ''-'' then - int (digitsValue ds) else int (digitsValue ds)) in
          if fitsInt v then Some (word_of_int v) else None)"

fun natDigits :: "nat \<Rightarrow> string" where
  "natDigits n =
    (if n < 10 then [char_of (0x30 + n)] else natDigits (n div 10) @ [char_of (0x30 + n mod 10)])"

text \<open>The verb \<^verbatim>\<open>%d\<close> of \<^verbatim>\<open>fmt\<close> on an \<^verbatim>\<open>int\<close>: the signed decimal numeral.\<close>

definition formatInt :: "go_int \<Rightarrow> string" where
  "formatInt w = (if sint w < 0 then CHR ''-'' # natDigits (nat (- sint w)) else natDigits (nat (sint w)))"

text \<open>The apostrophe that the messages of the program put around a name.\<close>

definition quoted :: "string \<Rightarrow> string" where
  "quoted s = [CHR 0x27] @ s @ [CHR 0x27]"

text \<open>
  The conversion \<^verbatim>\<open>int(t)\<close> of a float: the fraction is discarded (truncation towards
  zero). Where the truncated value is no \<^verbatim>\<open>int\<close> (and for an infinity or a NaN) the
  language leaves the result to the implementation: it is the parameter \<open>impl\<close>.
\<close>

definition trunc :: "rat \<Rightarrow> int" where
  "trunc q = (if q < 0 then - \<lfloor>- q\<rfloor> else \<lfloor>q\<rfloor>)"

definition float64ToInt :: "(float64 \<Rightarrow> go_int) \<Rightarrow> float64 \<Rightarrow> go_int" where
  "float64ToInt impl t =
    (case t of
       Finite q \<Rightarrow>
         if fitsInt (trunc q) then word_of_int (trunc q) else impl t
     | _ \<Rightarrow> impl t)"

section \<open>The server (\<^verbatim>\<open>server.go\<close>)\<close>

text \<open>
  What the server reads from its surroundings: the Unicode case tables behind
  \<^verbatim>\<open>strings.ToLower\<close>, the implementation's answer to a float conversion out of range,
  and the text of \<^verbatim>\<open>time.Now().Format(time.RFC3339)\<close>.
\<close>

record env =
  caseTable :: "rune \<Rightarrow> rune"
  convOutOfRange :: "float64 \<Rightarrow> go_int"
  clock :: string

text \<open>
  The one effect of a handler besides its response: \<^verbatim>\<open>time.Sleep\<close> with a
  \<^verbatim>\<open>time.Duration\<close>, a 64-bit count of nanoseconds. Log output is left out of the model
  throughout.
\<close>

datatype effect = Sleep "64 word"

definition asInt :: "(float64 \<Rightarrow> go_int) \<Rightarrow> gvalue \<Rightarrow> string + go_int" where
  "asInt impl v =
    (case v of
       VFloat t \<Rightarrow> Inr (float64ToInt impl t)
     | VInt t \<Rightarrow> Inr t
     | VString t \<Rightarrow> (case Atoi t of Some iv \<Rightarrow> Inr iv | None \<Rightarrow> Inl ''not an integer'')
     | _ \<Rightarrow> Inl ''not an integer'')"

definition getTwoInts ::
  "(float64 \<Rightarrow> go_int) \<Rightarrow> (string \<times> gvalue) list option \<Rightarrow> string \<Rightarrow> string
    \<Rightarrow> string + (go_int \<times> go_int)" where
  "getTwoInts impl params ka kb =
    (case mapIndex params ka of
       None \<Rightarrow> Inl (''missing param '' @ quoted ka)
     | Some av \<Rightarrow>
        (case mapIndex params kb of
           None \<Rightarrow> Inl (''missing param '' @ quoted kb)
         | Some bv \<Rightarrow>
            (case asInt impl av of
               Inl err \<Rightarrow> Inl (''param '' @ quoted ka @ '' error: '' @ err)
             | Inr a \<Rightarrow>
                (case asInt impl bv of
                   Inl err \<Rightarrow> Inl (''param '' @ quoted kb @ '' error: '' @ err)
                 | Inr b \<Rightarrow> Inr (a, b)))))"

text \<open>
  The loop of \<^verbatim>\<open>reverseString\<close>: \<open>i\<close> runs up from \<open>0\<close> and \<open>j\<close> down from
  \<open>len(r) - 1\<close>, swapping, while \<open>i < j\<close>.
\<close>

function reverse_loop :: "rune list \<Rightarrow> int \<Rightarrow> int \<Rightarrow> rune list" where
  "reverse_loop r i j =
    (if i < j then reverse_loop (r[nat i := r ! nat j, nat j := r ! nat i]) (i + 1) (j - 1)
     else r)"
  by pat_completeness auto
termination
  by (relation "measure (\<lambda>(r, i, j). nat (j - i))") simp_all

declare reverse_loop.simps [simp del]

definition reverseString :: "string \<Rightarrow> string" where
  "reverseString s =
    (let r = stringToRunes s in runesToString (reverse_loop r 0 (int (length r) - 1)))"

text \<open>The seconds the \<^verbatim>\<open>slow\<close> handler sleeps: 5 unless \<open>sleep\<close> is a float or a numeral.\<close>

definition slowSecs :: "(float64 \<Rightarrow> go_int) \<Rightarrow> (string \<times> gvalue) list option \<Rightarrow> go_int" where
  "slowSecs impl params =
    (case mapIndex params ''sleep'' of
       Some (VFloat t) \<Rightarrow> float64ToInt impl t
     | Some (VString t) \<Rightarrow> (case Atoi t of Some v \<Rightarrow> v | None \<Rightarrow> 5)
     | _ \<Rightarrow> 5)"

text \<open>
  \<^verbatim>\<open>processRequest\<close>: the response starts as \<open>{RequestID: req.RequestID}\<close>, every other
  field zero, and the branch of the lowered method name fills it in. The result is the
  effects of the handler, in order, and the response.
\<close>

definition processRequest :: "env \<Rightarrow> Request \<Rightarrow> effect list \<times> Response" where
  "processRequest e req =
    (let r = \<lparr>RespID = RequestID req, Result = VNil, Status = [], Error = []\<rparr>;
         m = ToLower (caseTable e) (Method req)
     in
       if m = ''add'' then
         (case getTwoInts (convOutOfRange e) (Params req) ''a'' ''b'' of
            Inl err \<Rightarrow> ([], r\<lparr>Status := ''ERROR'', Error := err\<rparr>)
          | Inr (a, b) \<Rightarrow> ([], r\<lparr>Result := VInt (a + b), Status := ''OK''\<rparr>))
       else if m = ''reverse_string'' then
         (case mapIndex (Params req) ''s'' of
            None \<Rightarrow> ([], r\<lparr>Status := ''ERROR'', Error := ''missing param '' @ quoted ''s''\<rparr>)
          | Some (VString s) \<Rightarrow> ([], r\<lparr>Result := VString (reverseString s), Status := ''OK''\<rparr>)
          | Some _ \<Rightarrow>
              ([], r\<lparr>Status := ''ERROR'', Error := ''param '' @ quoted ''s'' @ '' must be string''\<rparr>))
       else if m = ''get_time'' then
         ([], r\<lparr>Result := VString (clock e), Status := ''OK''\<rparr>)
       else if m = ''slow'' then
         (let secs = slowSecs (convOutOfRange e) (Params req) in
          ([Sleep (secs * 1000000000)],
           r\<lparr>Result := VString (''slept '' @ formatInt secs @ '' seconds''), Status := ''OK''\<rparr>))
       else if m = ''echo'' then
         ([], r\<lparr>Result := VMap (Params req), Status := ''OK''\<rparr>)
       else
         ([], r\<lparr>Status := ''ERROR'', Error := ''unknown method '' @ quoted (Method req)\<rparr>))"

text \<open>\<^verbatim>\<open>sendError\<close> builds the error response that it writes to the connection.\<close>

definition sendError :: "string \<Rightarrow> string \<Rightarrow> Response" where
  "sendError reqID msg = \<lparr>RespID = reqID, Result = VNil, Status = ''ERROR'', Error = msg\<rparr>"

text \<open>
  What a connection handler does to its connection and process, in order: the effects
  of the handler, a response written (\<^verbatim>\<open>Encode\<close>; whether the write succeeds changes
  only the log), the connection closed (the deferred \<^verbatim>\<open>conn.Close\<close>), the process
  ended (\<^verbatim>\<open>os.Exit(1)\<close>, which runs no deferred call).
\<close>

datatype conn_event = Handler effect | Write Response | Close | Exit

text \<open>
  \<^verbatim>\<open>handleConn\<close>, given what decoding the request gave: \<open>None\<close> for a decoding error.
\<close>

definition handleConn :: "env \<Rightarrow> Request option \<Rightarrow> conn_event list" where
  "handleConn e dec =
    (case dec of
       None \<Rightarrow> [Write (sendError [] ''invalid json''), Close]
     | Some req \<Rightarrow>
        (case processRequest e req of (effs, resp) \<Rightarrow>
           map Handler effs @
           (if ToLower (caseTable e) (Method req) = ''crash'' then [Write resp, Exit]
            else [Write resp, Close])))"

text \<open>
  The fields \<^verbatim>\<open>encoding/json\<close> writes for a response, by the tags of the struct:
  \<open>request_id\<close> and \<open>status\<close> always, \<open>result\<close> unless the interface is nil and
  \<open>error\<close> unless the string is empty (\<^verbatim>\<open>omitempty\<close>).
\<close>

definition encodeResponse :: "Response \<Rightarrow> (string \<times> gvalue) list" where
  "encodeResponse r =
    [(''request_id'', VString (RespID r))]
    @ (if Result r = VNil then [] else [(''result'', Result r)])
    @ [(''status'', VString (Status r))]
    @ (if Error r = [] then [] else [(''error'', VString (Error r))])"

text \<open>
  Two notions for stating what \<open>add\<close> does with its parameters. The integer a
  parameter stands for: a finite float whose truncation is an \<^verbatim>\<open>int\<close> stands for that
  truncation, an \<^verbatim>\<open>int\<close> for itself, a string for the integer \<^verbatim>\<open>strconv.Atoi\<close> reads
  in it; no other parameter stands for an integer. And the parameters that are no
  integers at all: nil, a boolean, a slice, a map and a string that \<^verbatim>\<open>strconv.Atoi\<close>
  rejects.
\<close>

definition paramInt :: "gvalue \<Rightarrow> int option" where
  "paramInt v =
    (case v of
       VFloat (Finite q) \<Rightarrow> if fitsInt (trunc q) then Some (trunc q) else None
     | VInt w \<Rightarrow> Some (sint w)
     | VString s \<Rightarrow> map_option sint (Atoi s)
     | _ \<Rightarrow> None)"

definition notInteger :: "gvalue \<Rightarrow> bool" where
  "notInteger v =
    (case v of
       VNil \<Rightarrow> True
     | VBool b \<Rightarrow> True
     | VString s \<Rightarrow> Atoi s = None
     | VSlice xs \<Rightarrow> True
     | VMap kvs \<Rightarrow> True
     | _ \<Rightarrow> False)"

section \<open>The client (\<^verbatim>\<open>client.go\<close>)\<close>

text \<open>
  What the network does to one attempt: the dial fails, setting the deadline fails,
  writing the request fails, no response can be decoded before the deadline (no bytes,
  malformed bytes or a timeout), or a response is decoded.
\<close>

datatype net_outcome = DialFails | SetDeadlineFails | SendFails | ReceiveFails | Receives Response

text \<open>
  The errors \<^verbatim>\<open>sendRequest\<close> returns, by the message that \<^verbatim>\<open>fmt.Errorf\<close> builds:
  \<open>dial error\<close>, \<open>set deadline\<close>, \<open>encode/send\<close>, \<open>decode/receive\<close>,
  \<open>mismatched request id in response: got _ expected _\<close> and \<open>server error: _\<close>.
\<close>

datatype client_error =
    DialError
  | SetDeadlineError
  | EncodeSendError
  | DecodeReceiveError
  | MismatchedRequestID string string
  | ServerError string

text \<open>
  \<^verbatim>\<open>sendRequest\<close> returns a pointer to a response, or nil, and an error, or nil.
\<close>

definition sendRequest :: "net_outcome \<Rightarrow> Request \<Rightarrow> Response option \<times> client_error option" where
  "sendRequest net req =
    (case net of
       DialFails \<Rightarrow> (None, Some DialError)
     | SetDeadlineFails \<Rightarrow> (None, Some SetDeadlineError)
     | SendFails \<Rightarrow> (None, Some EncodeSendError)
     | ReceiveFails \<Rightarrow> (None, Some DecodeReceiveError)
     | Receives resp \<Rightarrow>
        if TrimSpace (RespID resp) \<noteq> RequestID req then
          (None, Some (MismatchedRequestID (RespID resp) (RequestID req)))
        else if Status resp \<noteq> ''OK'' then (Some resp, Some (ServerError (Error resp)))
        else (Some resp, None))"

text \<open>
  \<^verbatim>\<open>randInt\<close>, given the byte that \<^verbatim>\<open>rand.Read\<close> delivered. The remainder of Go
  truncates towards zero; its left operand is a byte here, so it is the remainder by the
  absolute value of the right one. A zero divisor is a run-time panic: \<open>None\<close>.
\<close>

definition randInt :: "go_int \<Rightarrow> go_int \<Rightarrow> 8 word \<Rightarrow> go_int option" where
  "randInt mn mx b =
    (if sint mx \<le> sint mn then Some mn
     else if mx - mn + 1 = 0 then None
     else Some (mn + word_of_int (uint b mod \<bar>sint (mx - mn + 1)\<bar>)))"

text \<open>
  The two durations of the retry loop, in nanoseconds: \<^verbatim>\<open>time.Duration\<close> is a 64-bit
  integer and \<^verbatim>\<open>time.Millisecond\<close> is 1000000. The untyped constants of
  \<open>200*(1<<uint(attempt-1))\<close> take the type of the conversion around them, so the
  shift and the products are 64-bit and wrap around; a shift by 64 or more gives 0.
\<close>

definition backoff :: "int \<Rightarrow> 64 word" where
  "backoff attempt = (200 * push_bit (nat (attempt - 1)) 1) * 1000000"

definition jitter :: "go_int \<Rightarrow> 64 word" where
  "jitter j = j * 1000000"

text \<open>
  What the client does, in order: it calls \<^verbatim>\<open>sendRequest\<close> (attempt \<open>k\<close>), sleeps,
  prints the response and returns, ends in \<^verbatim>\<open>log.Fatalf\<close> with the last error, or
  panics.
\<close>

datatype client_event =
    Call int
  | Slept "64 word"
  | Printed "Response option"
  | Fatal "client_error option"
  | Panicked

text \<open>
  The retry loop of \<^verbatim>\<open>main\<close>, from the attempt \<open>attempt\<close> on. \<open>net k\<close> is what the
  network does to the attempt \<open>k\<close> and \<open>rnd k\<close> the random byte read after it. The
  counter is an integer of the model: it stays an \<^verbatim>\<open>int\<close> of Go as long as the
  maximum is below the largest one.
\<close>

function retryLoop ::
  "(int \<Rightarrow> net_outcome) \<Rightarrow> (int \<Rightarrow> 8 word) \<Rightarrow> Request \<Rightarrow> int \<Rightarrow> client_error option \<Rightarrow> int
    \<Rightarrow> client_event list" where
  "retryLoop net rnd req maxRetries lastErr attempt =
    (if attempt \<le> maxRetries then
       (case sendRequest (net attempt) req of
          (resp, None) \<Rightarrow> [Call attempt, Printed resp]
        | (resp, Some err) \<Rightarrow>
            (case randInt 0 200 (rnd attempt) of
               None \<Rightarrow> [Call attempt, Panicked]
             | Some j \<Rightarrow>
                 Call attempt # Slept (backoff attempt + jitter j)
                 # retryLoop net rnd req maxRetries (Some err) (attempt + 1)))
     else [Fatal lastErr])"
  by pat_completeness auto
termination
  by (relation "measure (\<lambda>(net, rnd, req, maxRetries, lastErr, attempt). nat (maxRetries + 1 - attempt))")
    simp_all

declare retryLoop.simps [simp del]

text \<open>\<^verbatim>\<open>main\<close> after the flags are parsed and the request is built: the loop from attempt 1.\<close>

definition clientMain ::
  "(int \<Rightarrow> net_outcome) \<Rightarrow> (int \<Rightarrow> 8 word) \<Rightarrow> Request \<Rightarrow> int \<Rightarrow> client_event list" where
  "clientMain net rnd req maxRetries = retryLoop net rnd req maxRetries None 1"

section \<open>Inputs for evaluating the model\<close>

text \<open>
  A concrete environment. The examples below use ASCII method names only, for which
  \<^const>\<open>ToLower\<close> never consults the case table; the table here leaves every rune as
  it is. An x86-64 processor answers the most negative integer to a float conversion out
  of range.
\<close>

definition sampleEnv :: env where
  "sampleEnv =
    \<lparr>caseTable = (\<lambda>r. r), convOutOfRange = (\<lambda>t. 0x8000000000000000),
     clock = ''2024-05-01T12:00:00Z''\<rparr>"

text \<open>The scenario of the specification: \<open>add\<close> with \<open>{"a": 5, "b": 7}\<close>.\<close>

definition addRequest :: Request where
  "addRequest =
    \<lparr>RequestID = ''id-1'', Method = ''add'',
     Params = Some [(''a'', VFloat (Finite 5)), (''b'', VFloat (Finite 7))], Timestamp = []\<rparr>"

text \<open>
  \<open>add\<close> of the floats nearest to 5.9 and 7.2, and \<open>slow\<close> with the float nearest to
  2.9, each written as the exact value of the float.
\<close>

definition addFractions :: Request where
  "addFractions =
    \<lparr>RequestID = ''id-2'', Method = ''add'',
     Params = Some [(''a'', VFloat (Finite (3321404725185741 / 562949953421312))),
                    (''b'', VFloat (Finite (8106479329266893 / 1125899906842624)))],
     Timestamp = []\<rparr>"

definition slowRequest :: Request where
  "slowRequest =
    \<lparr>RequestID = ''id-4'', Method = ''slow'',
     Params = Some [(''sleep'', VFloat (Finite (6530219459687219 / 2251799813685248)))],
     Timestamp = []\<rparr>"

lemma ToLower_ascii: "list_all (\<lambda>c. (of_char c :: nat) < 0x80) s \<Longrightarrow> ToLower t s = map asciiLower s"
  by (simp add: ToLower_def)

section \<open>The dispatcher\<close>

text \<open>
  Claim C9. For every decoded request, whatever its method name and parameters, the
  response that \<^verbatim>\<open>processRequest\<close> builds carries the request's id, and its status is
  \<open>OK\<close> or \<open>ERROR\<close>, never empty or anything else.
\<close>

theorem processRequest_id_and_status:
  "RespID (snd (processRequest e req)) = RequestID req \<and>
   (Status (snd (processRequest e req)) = ''OK'' \<or>
    Status (snd (processRequest e req)) = ''ERROR'')"
  by (simp add: processRequest_def Let_def
      split: sum.split option.split gvalue.split prod.split)

text \<open>
  Claim C5. A request whose lowered method name is none of \<open>add\<close>, \<open>reverse_string\<close>,
  \<open>get_time\<close>, \<open>slow\<close>, \<open>echo\<close>, \<open>crash\<close> gets status \<open>ERROR\<close>, the message
  \<open>unknown method '<name>'\<close> with the method name as the request wrote it, and the
  request's id; the handler has no effect.
\<close>

theorem processRequest_unknown_method:
  assumes "ToLower (caseTable e) (Method req) \<notin>
    {''add'', ''reverse_string'', ''get_time'', ''slow'', ''echo'', ''crash''}"
  shows "processRequest e req =
    ([], \<lparr>RespID = RequestID req, Result = VNil, Status = ''ERROR'',
          Error = ''unknown method '' @ quoted (Method req)\<rparr>)"
  using assms by (simp add: processRequest_def Let_def)

theorem processRequest_unknown_method_witness:
  "ToLower (caseTable sampleEnv) ''Multiply'' \<notin>
     {''add'', ''reverse_string'', ''get_time'', ''slow'', ''echo'', ''crash''} \<and>
   processRequest sampleEnv
     \<lparr>RequestID = ''id-1'', Method = ''Multiply'', Params = Some [], Timestamp = []\<rparr> =
   ([], \<lparr>RespID = ''id-1'', Result = VNil, Status = ''ERROR'',
         Error = ''unknown method '' @ [CHR 0x27] @ ''Multiply'' @ [CHR 0x27]\<rparr>)"
proof -
  let ?req = "\<lparr>RequestID = ''id-1'', Method = ''Multiply'', Params = Some [], Timestamp = []\<rparr>"
  have low: "ToLower (caseTable sampleEnv) ''Multiply'' = ''multiply''"
    by (simp add: ToLower_def asciiLower_def char_of_def bit_Suc_0_iff)
  then have out: "ToLower (caseTable sampleEnv) (Method ?req) \<notin>
      {''add'', ''reverse_string'', ''get_time'', ''slow'', ''echo'', ''crash''}"
    by simp
  from processRequest_unknown_method [OF out] low show ?thesis
    by (simp add: quoted_def)
qed

lemma trunc_of_int [simp]: "trunc (of_int n) = n"
  by (simp add: trunc_def)

lemma trunc_numeral [simp]: "trunc (numeral n) = numeral n"
  using trunc_of_int [of "numeral n"] by simp

lemma processRequest_addRequest:
  "processRequest sampleEnv addRequest =
     ([], \<lparr>RespID = ''id-1'', Result = VInt 12, Status = ''OK'', Error = []\<rparr>)"
  by (simp add: processRequest_def addRequest_def sampleEnv_def ToLower_def asciiLower_def
      getTwoInts_def mapIndex_def asInt_def float64ToInt_def fitsInt_def Let_def)

section \<open>The connection handler and the encoded response\<close>

text \<open>
  Claim C6. When decoding the request fails, the handler writes an \<open>ERROR\<close> response
  whose id is the empty string (and whose message is \<open>invalid json\<close>) and closes the
  connection; nothing else happens on the connection, whatever the environment: no
  handler runs.
\<close>

theorem handleConn_decode_failure:
  "handleConn e None =
     [Write \<lparr>RespID = [], Result = VNil, Status = ''ERROR'', Error = ''invalid json''\<rparr>, Close]"
  by (simp add: handleConn_def sendError_def)

lemma getTwoInts_error_nonempty: "getTwoInts impl p ka kb = Inl err \<Longrightarrow> err \<noteq> []"
  by (auto simp: getTwoInts_def split: option.splits sum.splits)

lemma processRequest_shape:
  "(Status (snd (processRequest e req)) = ''OK'' \<and> Result (snd (processRequest e req)) \<noteq> VNil
      \<and> Error (snd (processRequest e req)) = [])
   \<or> (Status (snd (processRequest e req)) = ''ERROR'' \<and> Result (snd (processRequest e req)) = VNil
      \<and> Error (snd (processRequest e req)) \<noteq> [])"
  by (auto simp: processRequest_def Let_def dest: getTwoInts_error_nonempty
      split: sum.split option.split gvalue.split prod.split)

lemma handleConn_writes:
  assumes w: "Write r \<in> set (handleConn e dec)"
  shows "r = sendError [] ''invalid json'' \<or> (\<exists>req. r = snd (processRequest e req))"
proof (cases dec)
  case None
  with w show ?thesis by (simp add: handleConn_def)
next
  case (Some req)
  obtain effs resp where p: "processRequest e req = (effs, resp)"
    by (cases "processRequest e req")
  with Some w have "r = resp" by (auto simp: handleConn_def split: if_splits)
  with p have "r = snd (processRequest e req)" by simp
  then show ?thesis by blast
qed

text \<open>
  Claim C8. Every response the handler writes is encoded with the fields
  \<open>request_id\<close>, \<open>result\<close>, \<open>status\<close> when its status is \<open>OK\<close> and with
  \<open>request_id\<close>, \<open>status\<close>, \<open>error\<close> when its status is \<open>ERROR\<close>, and it has one of
  the two: \<open>result\<close> is on the wire if and only if the status is \<open>OK\<close>, \<open>error\<close>
  if and only if it is \<open>ERROR\<close>, and the field that is absent is left out, not written
  as \<open>null\<close>.
\<close>

theorem encoded_fields_follow_status:
  assumes "Write r \<in> set (handleConn e dec)"
  shows "(Status r = ''OK'' \<and> map fst (encodeResponse r) = [''request_id'', ''result'', ''status''])
       \<or> (Status r = ''ERROR'' \<and> map fst (encodeResponse r) = [''request_id'', ''status'', ''error''])"
proof -
  from handleConn_writes [OF assms] show ?thesis
  proof
    assume "r = sendError [] ''invalid json''"
    then show ?thesis by (simp add: sendError_def encodeResponse_def)
  next
    assume "\<exists>req. r = snd (processRequest e req)"
    then obtain req where "r = snd (processRequest e req)" ..
    with processRequest_shape [of e req] show ?thesis
      by (auto simp: encodeResponse_def)
  qed
qed

theorem encoded_fields_follow_status_witness:
  "Write \<lparr>RespID = ''id-1'', Result = VInt 12, Status = ''OK'', Error = []\<rparr>
      \<in> set (handleConn sampleEnv (Some addRequest)) \<and>
   map fst (encodeResponse \<lparr>RespID = ''id-1'', Result = VInt 12, Status = ''OK'', Error = []\<rparr>) =
     [''request_id'', ''result'', ''status'']"
proof -
  have low: "ToLower (caseTable sampleEnv) (Method addRequest) \<noteq> ''crash''"
    by (simp add: addRequest_def ToLower_def asciiLower_def)
  have w: "Write \<lparr>RespID = ''id-1'', Result = VInt 12, Status = ''OK'', Error = []\<rparr>
      \<in> set (handleConn sampleEnv (Some addRequest))"
    using low by (simp add: handleConn_def processRequest_addRequest)
  from encoded_fields_follow_status [OF w] w show ?thesis by simp
qed

text \<open>
  A field that is present can still hold \<open>null\<close>: \<open>echo\<close> of a request without
  parameters answers the nil map it was given, which is not a nil interface, so the
  field \<open>result\<close> is written, with the value \<open>null\<close>.
\<close>

lemma echo_nil_params:
  "ToLower (caseTable e) (Method req) = ''echo'' \<Longrightarrow> Params req = None \<Longrightarrow>
   encodeResponse (snd (processRequest e req)) =
     [(''request_id'', VString (RequestID req)), (''result'', VMap None), (''status'', VString ''OK'')]"
  by (simp add: processRequest_def encodeResponse_def Let_def)

section \<open>One attempt of the client\<close>

lemma TrimSpace_padded: "TrimSpace '' abc'' = ''abc''"
  by (simp add: TrimSpace_def isSpace_def DecodeLastRuneInString_def TrimRightSpace.simps)

lemma TrimSpace_plain: "TrimSpace ''xyz'' = ''xyz''"
  by (simp add: TrimSpace_def isSpace_def DecodeLastRuneInString_def TrimRightSpace.simps)

lemma sendRequest_DialFails: "sendRequest DialFails req = (None, Some DialError)"
  by (simp add: sendRequest_def)

text \<open>
  Claim C1, as the code has it. \<^verbatim>\<open>sendRequest\<close> compares the id of the request with
  the id of the response after \<^verbatim>\<open>strings.TrimSpace\<close>. For a decoded response, the
  attempt succeeds if and only if the trimmed id of the response equals the id of the
  request and the status is \<open>OK\<close>; a response whose trimmed id differs is rejected with
  the mismatched-id error and without a response, whatever its status.
\<close>

theorem sendRequest_correlation:
  "(snd (sendRequest (Receives resp) req) = None \<longleftrightarrow>
      TrimSpace (RespID resp) = RequestID req \<and> Status resp = ''OK'')
   \<and> (TrimSpace (RespID resp) \<noteq> RequestID req \<longrightarrow>
        sendRequest (Receives resp) req =
          (None, Some (MismatchedRequestID (RespID resp) (RequestID req))))"
  by (simp add: sendRequest_def)

theorem sendRequest_correlation_witness:
  "TrimSpace ''xyz'' \<noteq> ''abc'' \<and>
   sendRequest (Receives \<lparr>RespID = ''xyz'', Result = VInt 12, Status = ''OK'', Error = []\<rparr>)
      \<lparr>RequestID = ''abc'', Method = ''add'', Params = None, Timestamp = []\<rparr>
    = (None, Some (MismatchedRequestID ''xyz'' ''abc''))"
  using sendRequest_correlation
    [of "\<lparr>RespID = ''xyz'', Result = VInt 12, Status = ''OK'', Error = []\<rparr>"
        "\<lparr>RequestID = ''abc'', Method = ''add'', Params = None, Timestamp = []\<rparr>"]
  by (simp add: TrimSpace_plain)

text \<open>
  The claim as the specification states it fails: a response whose id is the request's
  id with a space in front differs from it and is accepted.
\<close>

theorem sendRequest_accepts_padded_id:
  "sendRequest (Receives \<lparr>RespID = '' abc'', Result = VInt 12, Status = ''OK'', Error = []\<rparr>)
      \<lparr>RequestID = ''abc'', Method = ''add'', Params = None, Timestamp = []\<rparr>
    = (Some \<lparr>RespID = '' abc'', Result = VInt 12, Status = ''OK'', Error = []\<rparr>, None)
   \<and> '' abc'' \<noteq> ''abc''"
  by (simp add: sendRequest_def TrimSpace_padded)

section \<open>The retry loop\<close>

lemma randInt_0_200: "randInt 0 200 b = Some (word_of_int (uint b mod 201))"
  by (simp add: randInt_def)

lemma retryLoop_failure_step:
  assumes "attempt \<le> maxRetries" and "snd (sendRequest (net attempt) req) = Some err"
  shows "retryLoop net rnd req maxRetries lastErr attempt =
    Call attempt # Slept (backoff attempt + jitter (word_of_int (uint (rnd attempt) mod 201)))
      # retryLoop net rnd req maxRetries (Some err) (attempt + 1)"
proof -
  obtain resp where "sendRequest (net attempt) req = (resp, Some err)"
    using assms(2) by (cases "sendRequest (net attempt) req") simp
  with assms(1) show ?thesis
    by (subst retryLoop.simps) (simp add: randInt_0_200)
qed

lemma retryLoop_exhausted: "maxRetries < attempt \<Longrightarrow> retryLoop net rnd req maxRetries lastErr attempt = [Fatal lastErr]"
  by (subst retryLoop.simps) simp

lemma sint_word_of_int_64:
  "- (2 ^ 63) \<le> x \<Longrightarrow> x < 2 ^ 63 \<Longrightarrow> sint (word_of_int x :: 64 word) = x"
  by (simp add: sint_sbintrunc' signed_take_bit_int_eq_self)

lemma delay_value:
  assumes "1 \<le> k" and "k \<le> 36"
  shows "sint (backoff k + jitter (word_of_int (uint b mod 201))) =
     (200 * 2 ^ nat (k - 1) + uint b mod 201) * 1000000"
proof -
  define n where "n = nat (k - 1)"
  define j where "j = uint b mod 201"
  define P where "P = (2::int) ^ n"
  have n: "n \<le> 35" using assms by (simp add: n_def)
  have j: "0 \<le> j" "j \<le> 200" by (simp_all add: j_def)
  have "(2::int) ^ n \<le> 2 ^ 35" using n by (intro power_increasing) simp_all
  then have P: "1 \<le> P" "P \<le> 34359738368" by (simp_all add: P_def)
  let ?x = "(200 * P + j) * 1000000"
  have w: "backoff k + jitter (word_of_int j) = (word_of_int ?x :: 64 word)"
    by (simp add: backoff_def jitter_def n_def [symmetric] P_def push_bit_eq_mult algebra_simps)
  have lo: "- (2 ^ 63) \<le> ?x" using P j by simp
  have hi: "?x < 2 ^ 63" using P j by simp
  have "sint (word_of_int ?x :: 64 word) = ?x"
    using lo hi by (intro sint_word_of_int_64) simp_all
  with w show ?thesis by (simp add: n_def j_def P_def)
qed

text \<open>No attempt is made beyond the configured maximum.\<close>

lemma retryLoop_calls_in_budget:
  "Call k \<in> set (retryLoop net rnd req maxRetries lastErr attempt) \<Longrightarrow>
     attempt \<le> k \<and> k \<le> maxRetries"
proof (induction net rnd req maxRetries lastErr attempt rule: retryLoop.induct)
  case (1 net rnd req maxRetries lastErr attempt)
  show ?case
  proof (cases "attempt \<le> maxRetries")
    case False
    with "1.prems" show ?thesis by (simp add: retryLoop_exhausted)
  next
    case True
    obtain resp oerr where sr: "sendRequest (net attempt) req = (resp, oerr)"
      by (cases "sendRequest (net attempt) req")
    show ?thesis
    proof (cases oerr)
      case None
      with sr True have "retryLoop net rnd req maxRetries lastErr attempt = [Call attempt, Printed resp]"
        by (subst retryLoop.simps) simp
      with "1.prems" True show ?thesis by simp
    next
      case (Some err)
      with sr have f: "snd (sendRequest (net attempt) req) = Some err" by simp
      have step: "retryLoop net rnd req maxRetries lastErr attempt =
          Call attempt # Slept (backoff attempt + jitter (word_of_int (uint (rnd attempt) mod 201)))
            # retryLoop net rnd req maxRetries (Some err) (attempt + 1)"
        using True f by (rule retryLoop_failure_step)
      from "1.prems" step
      have "k = attempt \<or> Call k \<in> set (retryLoop net rnd req maxRetries (Some err) (attempt + 1))"
        by simp
      then show ?thesis
      proof
        assume "k = attempt"
        with True show ?thesis by simp
      next
        assume "Call k \<in> set (retryLoop net rnd req maxRetries (Some err) (attempt + 1))"
        with "1.IH" [OF True _ _ randInt_0_200, of resp "Some err" err] sr Some
        have "attempt + 1 \<le> k \<and> k \<le> maxRetries" by simp
        then show ?thesis by simp
      qed
    qed
  qed
qed

text \<open>
  Claim C2 holds but for its words "without sleeping": the sleep stands in the body of
  the loop with no test of the attempt number, so the loop sleeps after the last failed
  attempt too, and only then reports that all attempts failed.
\<close>

lemma retryLoop_last_failure:
  assumes "snd (sendRequest (net maxRetries) req) = Some err"
  shows "retryLoop net rnd req maxRetries lastErr maxRetries =
    [Call maxRetries,
     Slept (backoff maxRetries + jitter (word_of_int (uint (rnd maxRetries) mod 201))),
     Fatal (Some err)]"
  using assms by (simp add: retryLoop_failure_step retryLoop_exhausted)

text \<open>
  Claim C2 at one attempt allowed and a dial that fails (random byte 0): one call, a
  sleep of 200 ms, then the fatal report.
\<close>

theorem clientMain_sleeps_after_last_attempt:
  "clientMain (\<lambda>k. DialFails) (\<lambda>k. 0) addRequest 1 =
     [Call 1, Slept 200000000, Fatal (Some DialError)]"
  by (simp add: clientMain_def retryLoop.simps sendRequest_DialFails randInt_def backoff_def jitter_def)

text \<open>
  Claim C3, as the code has it. The jitter is \<open>b mod 201\<close> milliseconds for a random
  byte \<open>b\<close>, so it can be 200 ms itself; and the delay is computed in 64-bit
  nanoseconds, which holds \<open>200 ms * 2^(k-1)\<close> up to \<open>k = 36\<close>. For \<open>1 \<le> k \<le> 36\<close>,
  after a failed attempt \<open>k\<close> within the budget the loop sleeps a delay \<open>d\<close> with
  \<open>200 ms * 2^(k-1) \<le> d \<le> 200 ms * 2^(k-1) + 200 ms\<close> before it goes on with
  attempt \<open>k + 1\<close>.
\<close>

theorem retry_delay_bounds:
  assumes "1 \<le> k" and "k \<le> 36" and "k \<le> maxRetries"
    and "snd (sendRequest (net k) req) = Some err"
  shows "\<exists>d. retryLoop net rnd req maxRetries lastErr k =
            Call k # Slept d # retryLoop net rnd req maxRetries (Some err) (k + 1)
          \<and> 200 * 2 ^ nat (k - 1) * 1000000 \<le> sint d
          \<and> sint d \<le> (200 * 2 ^ nat (k - 1) + 200) * 1000000"
proof -
  let ?d = "backoff k + jitter (word_of_int (uint (rnd k) mod 201))"
  have step: "retryLoop net rnd req maxRetries lastErr k =
      Call k # Slept ?d # retryLoop net rnd req maxRetries (Some err) (k + 1)"
    using assms(3,4) by (rule retryLoop_failure_step)
  have val: "sint ?d = (200 * 2 ^ nat (k - 1) + uint (rnd k) mod 201) * 1000000"
    using assms(1,2) by (rule delay_value)
  have "0 \<le> uint (rnd k) mod 201" and "uint (rnd k) mod 201 \<le> 200" by simp_all
  with val have "200 * 2 ^ nat (k - 1) * 1000000 \<le> sint ?d"
    and "sint ?d \<le> (200 * 2 ^ nat (k - 1) + 200) * 1000000" by simp_all
  with step show ?thesis by blast
qed

theorem retry_delay_bounds_witness:
  "\<exists>d. retryLoop (\<lambda>k. DialFails) (\<lambda>k. 100) addRequest 3 None 2 =
          Call 2 # Slept d # retryLoop (\<lambda>k. DialFails) (\<lambda>k. 100) addRequest 3 (Some DialError) 3
        \<and> 400000000 \<le> sint d \<and> sint d \<le> 600000000"
  using retry_delay_bounds [of 2 3 "\<lambda>k. DialFails" addRequest DialError "\<lambda>k. 100" None]
  by (simp add: sendRequest_DialFails)

text \<open>
  The claim as the specification states it fails: with the random byte 200 the delay
  between the attempts 1 and 2 is 400 ms, which is not below 200 ms + 200 ms.
\<close>

theorem retry_delay_reaches_bound:
  "clientMain (\<lambda>k. DialFails) (\<lambda>k. 200) addRequest 2 =
     [Call 1, Slept 400000000, Call 2, Slept 600000000, Fatal (Some DialError)]
   \<and> \<not> sint (400000000 :: 64 word) < (200 * 2 ^ (1 - 1) + 200) * 1000000"
  by (simp add: clientMain_def retryLoop.simps sendRequest_DialFails randInt_def backoff_def jitter_def)

text \<open>From attempt 37 on the product no longer fits: the backoff is negative.\<close>

lemma backoff_overflows: "sint (backoff 37) < 0"
  by (simp add: backoff_def)

section \<open>The handlers \<open>add\<close> and \<open>slow\<close>\<close>

lemma asInt_paramInt: "paramInt v = Some x \<Longrightarrow> asInt impl v = Inr (word_of_int x)"
  by (auto simp: paramInt_def asInt_def float64ToInt_def
      split: gvalue.splits float64.splits if_splits option.splits)

lemma asInt_notInteger: "notInteger v \<Longrightarrow> asInt impl v = Inl ''not an integer''"
  by (auto simp: notInteger_def asInt_def split: gvalue.splits)

lemma processRequest_add:
  "ToLower (caseTable e) (Method req) = ''add'' \<Longrightarrow>
   processRequest e req =
     (case getTwoInts (convOutOfRange e) (Params req) ''a'' ''b'' of
        Inl err \<Rightarrow> ([], \<lparr>RespID = RequestID req, Result = VNil, Status = ''ERROR'', Error = err\<rparr>)
      | Inr (a, b) \<Rightarrow>
          ([], \<lparr>RespID = RequestID req, Result = VInt (a + b), Status = ''OK'', Error = []\<rparr>))"
  by (simp add: processRequest_def Let_def split: sum.split prod.split)

lemma processRequest_slow:
  "ToLower (caseTable e) (Method req) = ''slow'' \<Longrightarrow>
   processRequest e req =
     ([Sleep (slowSecs (convOutOfRange e) (Params req) * 1000000000)],
      \<lparr>RespID = RequestID req,
       Result = VString (''slept '' @ formatInt (slowSecs (convOutOfRange e) (Params req)) @ '' seconds''),
       Status = ''OK'', Error = []\<rparr>)"
  by (simp add: processRequest_def Let_def)

lemma Atoi_rejects_nondigit:
  assumes "c \<in> set s" and "\<not> isDigit c" and "c \<noteq> CHR ''-''" and "c \<noteq> CHR ''+''"
  shows "Atoi s = None"
proof (cases s)
  case Nil
  with assms show ?thesis by simp
next
  case (Cons d ds)
  show ?thesis
  proof (cases "d = CHR ''-'' \<or> d = CHR ''+''")
    case True
    with Cons assms have "c \<in> set ds" by auto
    with assms(2) have "\<not> list_all isDigit ds" by (auto simp: list_all_iff)
    with Cons True show ?thesis by (auto simp: Atoi_def Let_def)
  next
    case False
    from assms(1,2) have "\<not> list_all isDigit s" by (auto simp: list_all_iff)
    with Cons False show ?thesis by (auto simp: Atoi_def Let_def)
  qed
qed

lemma Atoi_rejects_fraction: "CHR ''.'' \<in> set s \<Longrightarrow> Atoi s = None"
  by (rule Atoi_rejects_nondigit [of "CHR ''.''"]) (simp_all add: isDigit_def)

lemma trunc_5_5: "trunc (11 / 2) = 5" by code_simp
lemma trunc_7_25: "trunc (29 / 4) = 7" by code_simp

lemma trunc_5_9: "trunc (3321404725185741 / 562949953421312) = 5" by code_simp
lemma trunc_7_2: "trunc (8106479329266893 / 1125899906842624) = 7" by code_simp

lemma trunc_2_9: "trunc (6530219459687219 / 2251799813685248) = 2" by code_simp

text \<open>
  Claim C4, as the code has it. \<open>add\<close> works on integers: when \<open>a\<close> and \<open>b\<close> stand
  for the integers \<open>x\<close> and \<open>y\<close> (a number counts as its truncation), the status is
  \<open>OK\<close> and the result is \<open>x + y\<close> in the 64-bit arithmetic of \<^verbatim>\<open>int\<close>, which is the
  sum itself whenever the sum is an \<^verbatim>\<open>int\<close>. When \<open>a\<close> or \<open>b\<close> is nil, a boolean, a
  slice, a map or a string that \<^verbatim>\<open>strconv.Atoi\<close> rejects, the status is \<open>ERROR\<close>.
\<close>

theorem add_sum_of_integers:
  assumes "ToLower (caseTable e) (Method req) = ''add''"
    and "mapIndex (Params req) ''a'' = Some va"
    and "mapIndex (Params req) ''b'' = Some vb"
  shows "(paramInt va = Some x \<and> paramInt vb = Some y \<longrightarrow>
            processRequest e req =
              ([], \<lparr>RespID = RequestID req, Result = VInt (word_of_int (x + y)),
                    Status = ''OK'', Error = []\<rparr>)
            \<and> (fitsInt (x + y) \<longrightarrow> sint (word_of_int (x + y) :: go_int) = x + y))
       \<and> (notInteger va \<or> notInteger vb \<longrightarrow>
            Status (snd (processRequest e req)) = ''ERROR'')"
proof (intro conjI impI)
  assume "paramInt va = Some x \<and> paramInt vb = Some y"
  then have "asInt (convOutOfRange e) va = Inr (word_of_int x)"
    and "asInt (convOutOfRange e) vb = Inr (word_of_int y)"
    by (simp_all add: asInt_paramInt)
  with assms(2,3) have "getTwoInts (convOutOfRange e) (Params req) ''a'' ''b'' =
      Inr (word_of_int x, word_of_int y)"
    by (simp add: getTwoInts_def)
  with assms(1) show "processRequest e req =
      ([], \<lparr>RespID = RequestID req, Result = VInt (word_of_int (x + y)),
            Status = ''OK'', Error = []\<rparr>)"
    by (simp add: processRequest_add)
next
  assume "fitsInt (x + y)"
  then show "sint (word_of_int (x + y) :: go_int) = x + y"
    by (intro sint_word_of_int_64) (simp_all add: fitsInt_def)
next
  assume "notInteger va \<or> notInteger vb"
  then have "asInt (convOutOfRange e) va = Inl ''not an integer''
      \<or> asInt (convOutOfRange e) vb = Inl ''not an integer''"
    by (auto simp: asInt_notInteger)
  with assms(2,3) have "\<exists>err. getTwoInts (convOutOfRange e) (Params req) ''a'' ''b'' = Inl err"
    by (auto simp: getTwoInts_def split: sum.splits)
  with assms(1) show "Status (snd (processRequest e req)) = ''ERROR''"
    by (auto simp: processRequest_add)
qed

theorem add_sum_of_integers_witness:
  "paramInt (VFloat (Finite 5)) = Some 5 \<and> paramInt (VFloat (Finite 7)) = Some 7 \<and>
   processRequest sampleEnv addRequest =
     ([], \<lparr>RespID = ''id-1'', Result = VInt 12, Status = ''OK'', Error = []\<rparr>)"
proof -
  have m: "ToLower (caseTable sampleEnv) (Method addRequest) = ''add''"
    by (simp add: addRequest_def ToLower_def asciiLower_def)
  have a: "mapIndex (Params addRequest) ''a'' = Some (VFloat (Finite 5))"
    and b: "mapIndex (Params addRequest) ''b'' = Some (VFloat (Finite 7))"
    by (simp_all add: addRequest_def mapIndex_def)
  have p: "paramInt (VFloat (Finite 5)) = Some 5" "paramInt (VFloat (Finite 7)) = Some 7"
    by (simp_all add: paramInt_def fitsInt_def)
  from add_sum_of_integers [OF m a b, of 5 7] p show ?thesis
    by (simp add: addRequest_def)
qed

text \<open>
  The claim as the specification states it fails: the sum of 5.5 and 7.25 is 12.75,
  and \<open>add\<close> answers 12.
\<close>

theorem add_truncates_fractions:
  "processRequest sampleEnv
     \<lparr>RequestID = ''id-1'', Method = ''add'',
      Params = Some [(''a'', VFloat (Finite (11 / 2))), (''b'', VFloat (Finite (29 / 4)))],
      Timestamp = []\<rparr> =
     ([], \<lparr>RespID = ''id-1'', Result = VInt 12, Status = ''OK'', Error = []\<rparr>)
   \<and> (11 / 2 + 29 / 4 :: rat) \<noteq> 12"
  by (simp add: processRequest_def sampleEnv_def ToLower_def asciiLower_def
      getTwoInts_def mapIndex_def asInt_def float64ToInt_def fitsInt_def Let_def trunc_5_5 trunc_7_25)

text \<open>
  Claim C10, as the code has it. For \<open>add\<close>, float arguments \<open>a\<close> and \<open>b\<close> whose
  truncations towards zero are \<^verbatim>\<open>int\<close>s give the result \<open>trunc a + trunc b\<close> in
  64-bit arithmetic, which is that sum whenever the sum is an \<^verbatim>\<open>int\<close>; a string with
  a decimal point is no integer for \<^verbatim>\<open>asInt\<close>; and for \<open>slow\<close>, a float \<open>sleep\<close>
  whose truncation is an \<^verbatim>\<open>int\<close> is truncated to whole seconds, which the handler
  sleeps and reports.
\<close>

theorem float_parameters_truncate:
  "(ToLower (caseTable e) (Method req) = ''add'' \<and>
      mapIndex (Params req) ''a'' = Some (VFloat (Finite a)) \<and>
      mapIndex (Params req) ''b'' = Some (VFloat (Finite b)) \<and>
      fitsInt (trunc a) \<and> fitsInt (trunc b) \<longrightarrow>
        processRequest e req =
          ([], \<lparr>RespID = RequestID req, Result = VInt (word_of_int (trunc a + trunc b)),
                Status = ''OK'', Error = []\<rparr>)
        \<and> (fitsInt (trunc a + trunc b) \<longrightarrow>
              sint (word_of_int (trunc a + trunc b) :: go_int) = trunc a + trunc b))
   \<and> (CHR ''.'' \<in> set s \<longrightarrow> asInt impl (VString s) = Inl ''not an integer'')
   \<and> (ToLower (caseTable e) (Method req) = ''slow'' \<and>
      mapIndex (Params req) ''sleep'' = Some (VFloat (Finite t)) \<and> fitsInt (trunc t) \<longrightarrow>
        processRequest e req =
          ([Sleep (word_of_int (trunc t) * 1000000000)],
           \<lparr>RespID = RequestID req,
            Result = VString (''slept '' @ formatInt (word_of_int (trunc t)) @ '' seconds''),
            Status = ''OK'', Error = []\<rparr>))"
proof (intro conjI impI)
  assume h: "ToLower (caseTable e) (Method req) = ''add'' \<and>
      mapIndex (Params req) ''a'' = Some (VFloat (Finite a)) \<and>
      mapIndex (Params req) ''b'' = Some (VFloat (Finite b)) \<and>
      fitsInt (trunc a) \<and> fitsInt (trunc b)"
  then have "getTwoInts (convOutOfRange e) (Params req) ''a'' ''b'' =
      Inr (word_of_int (trunc a), word_of_int (trunc b))"
    by (simp add: getTwoInts_def asInt_def float64ToInt_def)
  with h show "processRequest e req =
      ([], \<lparr>RespID = RequestID req, Result = VInt (word_of_int (trunc a + trunc b)),
            Status = ''OK'', Error = []\<rparr>)"
    by (simp add: processRequest_add)
next
  assume "fitsInt (trunc a + trunc b)"
  then show "sint (word_of_int (trunc a + trunc b) :: go_int) = trunc a + trunc b"
    by (intro sint_word_of_int_64) (simp_all add: fitsInt_def)
next
  assume "CHR ''.'' \<in> set s"
  then show "asInt impl (VString s) = Inl ''not an integer''"
    by (simp add: asInt_def Atoi_rejects_fraction)
next
  assume h: "ToLower (caseTable e) (Method req) = ''slow'' \<and>
      mapIndex (Params req) ''sleep'' = Some (VFloat (Finite t)) \<and> fitsInt (trunc t)"
  then have "slowSecs (convOutOfRange e) (Params req) = word_of_int (trunc t)"
    by (simp add: slowSecs_def float64ToInt_def)
  with h show "processRequest e req =
      ([Sleep (word_of_int (trunc t) * 1000000000)],
       \<lparr>RespID = RequestID req,
        Result = VString (''slept '' @ formatInt (word_of_int (trunc t)) @ '' seconds''),
        Status = ''OK'', Error = []\<rparr>)"
    by (simp add: processRequest_slow)
qed

theorem float_parameters_truncate_witness:
  "processRequest sampleEnv addFractions =
     ([], \<lparr>RespID = ''id-2'', Result = VInt 12, Status = ''OK'', Error = []\<rparr>)
   \<and> asInt (convOutOfRange sampleEnv) (VString ''2.5'') = Inl ''not an integer''
   \<and> processRequest sampleEnv slowRequest =
     ([Sleep 2000000000],
      \<lparr>RespID = ''id-4'', Result = VString ''slept 2 seconds'', Status = ''OK'', Error = []\<rparr>)"
proof -
  let ?a = "3321404725185741 / 562949953421312 :: rat"
  let ?b = "8106479329266893 / 1125899906842624 :: rat"
  let ?t = "6530219459687219 / 2251799813685248 :: rat"
  have m: "ToLower (caseTable sampleEnv) (Method addFractions) = ''add''"
    by (simp add: addFractions_def ToLower_def asciiLower_def)
  have a: "mapIndex (Params addFractions) ''a'' = Some (VFloat (Finite ?a))"
    and b: "mapIndex (Params addFractions) ''b'' = Some (VFloat (Finite ?b))"
    by (simp_all add: addFractions_def mapIndex_def)
  have f: "fitsInt (trunc ?a)" "fitsInt (trunc ?b)" "fitsInt (trunc ?t)"
    by (simp_all add: trunc_5_9 trunc_7_2 trunc_2_9 fitsInt_def)
  have d: "CHR ''.'' \<in> set ''2.5''" by simp
  have fmt: "formatInt 2 = ''2''" by (simp add: formatInt_def char_of_def bit_Suc_0_iff)
  note inst = float_parameters_truncate [where s = "''2.5''" and impl = "convOutOfRange sampleEnv"]
  from inst [of sampleEnv addFractions ?a ?b ?t] m a b f d
  have 1: "processRequest sampleEnv addFractions =
       ([], \<lparr>RespID = ''id-2'', Result = VInt 12, Status = ''OK'', Error = []\<rparr>)"
    and 2: "asInt (convOutOfRange sampleEnv) (VString ''2.5'') = Inl ''not an integer''"
    by (simp_all add: trunc_5_9 trunc_7_2 addFractions_def)
  have ms: "ToLower (caseTable sampleEnv) (Method slowRequest) = ''slow''"
    by (simp add: slowRequest_def ToLower_def asciiLower_def)
  have sl: "mapIndex (Params slowRequest) ''sleep'' = Some (VFloat (Finite ?t))"
    by (simp add: slowRequest_def mapIndex_def)
  from inst [of sampleEnv slowRequest ?a ?b ?t] ms sl f
  have 3: "processRequest sampleEnv slowRequest =
     ([Sleep 2000000000],
      \<lparr>RespID = ''id-4'', Result = VString ''slept 2 seconds'', Status = ''OK'', Error = []\<rparr>)"
    by (simp add: trunc_2_9 slowRequest_def fmt)
  from 1 2 3 show ?thesis by simp
qed

text \<open>
  The claim as the specification states it fails where the sum leaves the range of
  \<^verbatim>\<open>int\<close>: for \<open>a = b = 2^62\<close> the result is \<open>-2^63\<close>, not \<open>trunc a + trunc b\<close>.
\<close>

theorem add_sum_wraps_around:
  "processRequest sampleEnv
     \<lparr>RequestID = ''id-3'', Method = ''add'',
      Params = Some [(''a'', VFloat (Finite 4611686018427387904)),
                     (''b'', VFloat (Finite 4611686018427387904))],
      Timestamp = []\<rparr> =
     ([], \<lparr>RespID = ''id-3'', Result = VInt (- 9223372036854775808), Status = ''OK'', Error = []\<rparr>)
   \<and> sint (- 9223372036854775808 :: go_int) \<noteq>
       trunc 4611686018427387904 + trunc 4611686018427387904"
  by (simp add: processRequest_def sampleEnv_def ToLower_def asciiLower_def
      getTwoInts_def mapIndex_def asInt_def float64ToInt_def fitsInt_def Let_def)

end
